theory Spec2Isabelle
  imports Main "HOL-Library.Word"
begin

section \<open>Wire format: JSON documents\<close>

text \<open>
  A stream record carries bytes. \<^verbatim>\<open>json.Unmarshal\<close> either rejects them as not being
  JSON text, or reads the document they denote. The model identifies a JSON text with the
  value it denotes: objects keep their members in textual order (duplicates included),
  a number written as a plain integer literal is \<open>JInt\<close>, any other number literal
  (fraction or exponent) is \<open>JFloat\<close> with its text. String values are text.
\<close>

datatype json =
    JNull
  | JBool bool
  | JInt int
  | JFloat string
  | JString string
  | JArray "json list"
  | JObject "(string \<times> json) list"

datatype payload = NotJSON string | Doc json

record kinesis_record =
  Data :: payload

datatype unmarshal_error = SyntaxError | UnmarshalTypeError string

subsection \<open>Decoding into \<^verbatim>\<open>map[string]interface{}\<close>\<close>

text \<open>
  \<^verbatim>\<open>var genericEvent map[string]interface{}; json.Unmarshal(record.Data, &genericEvent)\<close>.
  A later member overwrites an earlier one with the same key; \<^verbatim>\<open>null\<close> leaves the map nil
  without an error, and a nil map reads as empty; any other non-object document is a type
  error.
\<close>

fun unmarshal_generic :: "payload \<Rightarrow> unmarshal_error + (string \<rightharpoonup> json)" where
  "unmarshal_generic (NotJSON raw) = Inl SyntaxError"
| "unmarshal_generic (Doc JNull) = Inr Map.empty"
| "unmarshal_generic (Doc (JObject kvs)) = Inr (map_of (rev kvs))"
| "unmarshal_generic (Doc j) = Inl (UnmarshalTypeError ''map[string]interface {}'')"

text \<open>
  The unchecked type assertion \<^verbatim>\<open>genericEvent["event_type"].(string)\<close>: \<open>None\<close> is the
  run-time panic raised when the value is absent (nil interface) or not a string.
\<close>

fun assert_string :: "json option \<Rightarrow> string option" where
  "assert_string (Some (JString s)) = Some s"
| "assert_string v = None"

subsection \<open>Decoding into a struct\<close>

text \<open>
  Keys are matched to the struct's \<^verbatim>\<open>json:"..."\<close> tags without regard to case. Go
  compares the folded names, where each letter is folded to its upper-case form; the
  Kelvin sign (bytes E2 84 AA) folds to K and the long s (bytes C5 BF) to S. All tags
  of this program are ASCII, so no other rune can make a key match.
\<close>

definition upper :: "char \<Rightarrow> char" where
  "upper c = (let n = (of_char c :: nat) in if 97 \<le> n \<and> n \<le> 122 then char_of (n - 32) else c)"

fun foldName :: "string \<Rightarrow> string" where
  "foldName [] = []"
| "foldName [c] = [upper c]"
| "foldName [c, d] =
     (if of_char c = (0xC5 :: nat) \<and> of_char d = (0xBF :: nat) then ''S''
      else upper c # foldName [d])"
| "foldName (c # d # e # cs) =
     (if of_char c = (0xE2 :: nat) \<and> of_char d = (0x84 :: nat) \<and> of_char e = (0xAA :: nat)
        then CHR ''K'' # foldName cs
      else if of_char c = (0xC5 :: nat) \<and> of_char d = (0xBF :: nat)
        then CHR ''S'' # foldName (e # cs)
      else upper c # foldName (d # e # cs))"

declare foldName.simps [simp del]

text \<open>
  A string field takes a JSON string, is left alone by \<^verbatim>\<open>null\<close>, and rejects anything
  else. An \<^verbatim>\<open>int\<close> field (64 bits) takes an integer literal that fits, is left alone by
  \<^verbatim>\<open>null\<close>, and rejects anything else.
\<close>

fun set_string :: "string \<Rightarrow> string \<Rightarrow> json \<Rightarrow> unmarshal_error + string" where
  "set_string field cur (JString s) = Inr s"
| "set_string field cur JNull = Inr cur"
| "set_string field cur j = Inl (UnmarshalTypeError field)"

fun set_int :: "string \<Rightarrow> 64 word \<Rightarrow> json \<Rightarrow> unmarshal_error + 64 word" where
  "set_int field cur (JInt n) =
     (if - (2 ^ 63) \<le> n \<and> n < 2 ^ 63 then Inr (word_of_int n)
      else Inl (UnmarshalTypeError field))"
| "set_int field cur JNull = Inr cur"
| "set_int field cur j = Inl (UnmarshalTypeError field)"

text \<open>
  The members of the object are applied in order. The caller never reads the struct when
  an error is returned, so the model stops at the first error, which is the one Go reports.
\<close>

fun decode_fields ::
  "('e \<Rightarrow> string \<times> json \<Rightarrow> unmarshal_error + 'e) \<Rightarrow> 'e \<Rightarrow> (string \<times> json) list
     \<Rightarrow> unmarshal_error + 'e" where
  "decode_fields f e [] = Inr e"
| "decode_fields f e (kv # kvs) =
     (case f e kv of Inl err \<Rightarrow> Inl err | Inr e' \<Rightarrow> decode_fields f e' kvs)"

fun unmarshal_struct ::
  "('e \<Rightarrow> string \<times> json \<Rightarrow> unmarshal_error + 'e) \<Rightarrow> string \<Rightarrow> 'e \<Rightarrow> payload
     \<Rightarrow> unmarshal_error + 'e" where
  "unmarshal_struct f ty zero (NotJSON raw) = Inl SyntaxError"
| "unmarshal_struct f ty zero (Doc JNull) = Inr zero"
| "unmarshal_struct f ty zero (Doc (JObject kvs)) = decode_fields f zero kvs"
| "unmarshal_struct f ty zero (Doc j) = Inl (UnmarshalTypeError ty)"

section \<open>Events and commands\<close>

text \<open>
  The four structs of \<^verbatim>\<open>producer/events/events.go\<close>. Go reuses the field names
  \<^verbatim>\<open>EventType\<close>, \<^verbatim>\<open>UserID\<close>, ... in every struct; here each record prefixes them
  (\<open>pc_\<close>, \<open>pp_\<close>, \<open>mb_\<close>, \<open>pd_\<close>).
\<close>

record PurchaseCompletedEvent =
  pc_EventType :: string
  pc_OrderID :: string
  pc_UserID :: string
  pc_Amount :: "64 word"

record PaymentPromiseCreatedEvent =
  pp_EventType :: string
  pp_PromiseID :: string
  pp_OrderID :: string
  pp_UserID :: string
  pp_DueDate :: string
  pp_PaymentMode :: string

record MemberBillCreatedEvent =
  mb_EventType :: string
  mb_BillID :: string
  mb_PromiseID :: string
  mb_UserID :: string
  mb_Amount :: "64 word"
  mb_IssuedDate :: string

record PaymentCompletedEvent =
  pd_EventType :: string
  pd_BillID :: string
  pd_UserID :: string
  pd_Amount :: "64 word"
  pd_PaidDate :: string

text \<open>\<^verbatim>\<open>commands.PurchaseCommand\<close>.\<close>

record PurchaseCommand =
  cmd_UserID :: string
  cmd_ProductID :: string
  cmd_ProductName :: string
  cmd_Amount :: "64 word"

subsection \<open>\<^verbatim>\<open>json.Marshal\<close> of each struct\<close>

definition marshal_purchase :: "PurchaseCompletedEvent \<Rightarrow> json" where
  "marshal_purchase e = JObject
     [(''event_type'', JString (pc_EventType e)),
      (''order_id'', JString (pc_OrderID e)),
      (''user_id'', JString (pc_UserID e)),
      (''amount'', JInt (sint (pc_Amount e)))]"

definition marshal_promise :: "PaymentPromiseCreatedEvent \<Rightarrow> json" where
  "marshal_promise e = JObject
     [(''event_type'', JString (pp_EventType e)),
      (''promise_id'', JString (pp_PromiseID e)),
      (''order_id'', JString (pp_OrderID e)),
      (''user_id'', JString (pp_UserID e)),
      (''due_date'', JString (pp_DueDate e)),
      (''payment_mode'', JString (pp_PaymentMode e))]"

definition marshal_bill :: "MemberBillCreatedEvent \<Rightarrow> json" where
  "marshal_bill e = JObject
     [(''event_type'', JString (mb_EventType e)),
      (''bill_id'', JString (mb_BillID e)),
      (''promise_id'', JString (mb_PromiseID e)),
      (''user_id'', JString (mb_UserID e)),
      (''amount'', JInt (sint (mb_Amount e))),
      (''issued_date'', JString (mb_IssuedDate e))]"

definition marshal_payment :: "PaymentCompletedEvent \<Rightarrow> json" where
  "marshal_payment e = JObject
     [(''event_type'', JString (pd_EventType e)),
      (''bill_id'', JString (pd_BillID e)),
      (''user_id'', JString (pd_UserID e)),
      (''amount'', JInt (sint (pd_Amount e))),
      (''paid_date'', JString (pd_PaidDate e))]"

subsection \<open>\<^verbatim>\<open>json.Unmarshal\<close> into each struct\<close>

definition purchase_field ::
  "PurchaseCompletedEvent \<Rightarrow> string \<times> json \<Rightarrow> unmarshal_error + PurchaseCompletedEvent" where
  "purchase_field e kv =
     (let k = foldName (fst kv); v = snd kv in
      if k = foldName ''event_type'' then
        map_sum id (\<lambda>s. e\<lparr>pc_EventType := s\<rparr>) (set_string ''event_type'' (pc_EventType e) v)
      else if k = foldName ''order_id'' then
        map_sum id (\<lambda>s. e\<lparr>pc_OrderID := s\<rparr>) (set_string ''order_id'' (pc_OrderID e) v)
      else if k = foldName ''user_id'' then
        map_sum id (\<lambda>s. e\<lparr>pc_UserID := s\<rparr>) (set_string ''user_id'' (pc_UserID e) v)
      else if k = foldName ''amount'' then
        map_sum id (\<lambda>n. e\<lparr>pc_Amount := n\<rparr>) (set_int ''amount'' (pc_Amount e) v)
      else Inr e)"

definition promise_field ::
  "PaymentPromiseCreatedEvent \<Rightarrow> string \<times> json
     \<Rightarrow> unmarshal_error + PaymentPromiseCreatedEvent" where
  "promise_field e kv =
     (let k = foldName (fst kv); v = snd kv in
      if k = foldName ''event_type'' then
        map_sum id (\<lambda>s. e\<lparr>pp_EventType := s\<rparr>) (set_string ''event_type'' (pp_EventType e) v)
      else if k = foldName ''promise_id'' then
        map_sum id (\<lambda>s. e\<lparr>pp_PromiseID := s\<rparr>) (set_string ''promise_id'' (pp_PromiseID e) v)
      else if k = foldName ''order_id'' then
        map_sum id (\<lambda>s. e\<lparr>pp_OrderID := s\<rparr>) (set_string ''order_id'' (pp_OrderID e) v)
      else if k = foldName ''user_id'' then
        map_sum id (\<lambda>s. e\<lparr>pp_UserID := s\<rparr>) (set_string ''user_id'' (pp_UserID e) v)
      else if k = foldName ''due_date'' then
        map_sum id (\<lambda>s. e\<lparr>pp_DueDate := s\<rparr>) (set_string ''due_date'' (pp_DueDate e) v)
      else if k = foldName ''payment_mode'' then
        map_sum id (\<lambda>s. e\<lparr>pp_PaymentMode := s\<rparr>)
          (set_string ''payment_mode'' (pp_PaymentMode e) v)
      else Inr e)"

definition bill_field ::
  "MemberBillCreatedEvent \<Rightarrow> string \<times> json \<Rightarrow> unmarshal_error + MemberBillCreatedEvent" where
  "bill_field e kv =
     (let k = foldName (fst kv); v = snd kv in
      if k = foldName ''event_type'' then
        map_sum id (\<lambda>s. e\<lparr>mb_EventType := s\<rparr>) (set_string ''event_type'' (mb_EventType e) v)
      else if k = foldName ''bill_id'' then
        map_sum id (\<lambda>s. e\<lparr>mb_BillID := s\<rparr>) (set_string ''bill_id'' (mb_BillID e) v)
      else if k = foldName ''promise_id'' then
        map_sum id (\<lambda>s. e\<lparr>mb_PromiseID := s\<rparr>) (set_string ''promise_id'' (mb_PromiseID e) v)
      else if k = foldName ''user_id'' then
        map_sum id (\<lambda>s. e\<lparr>mb_UserID := s\<rparr>) (set_string ''user_id'' (mb_UserID e) v)
      else if k = foldName ''amount'' then
        map_sum id (\<lambda>n. e\<lparr>mb_Amount := n\<rparr>) (set_int ''amount'' (mb_Amount e) v)
      else if k = foldName ''issued_date'' then
        map_sum id (\<lambda>s. e\<lparr>mb_IssuedDate := s\<rparr>)
          (set_string ''issued_date'' (mb_IssuedDate e) v)
      else Inr e)"

definition payment_field ::
  "PaymentCompletedEvent \<Rightarrow> string \<times> json \<Rightarrow> unmarshal_error + PaymentCompletedEvent" where
  "payment_field e kv =
     (let k = foldName (fst kv); v = snd kv in
      if k = foldName ''event_type'' then
        map_sum id (\<lambda>s. e\<lparr>pd_EventType := s\<rparr>) (set_string ''event_type'' (pd_EventType e) v)
      else if k = foldName ''bill_id'' then
        map_sum id (\<lambda>s. e\<lparr>pd_BillID := s\<rparr>) (set_string ''bill_id'' (pd_BillID e) v)
      else if k = foldName ''user_id'' then
        map_sum id (\<lambda>s. e\<lparr>pd_UserID := s\<rparr>) (set_string ''user_id'' (pd_UserID e) v)
      else if k = foldName ''amount'' then
        map_sum id (\<lambda>n. e\<lparr>pd_Amount := n\<rparr>) (set_int ''amount'' (pd_Amount e) v)
      else if k = foldName ''paid_date'' then
        map_sum id (\<lambda>s. e\<lparr>pd_PaidDate := s\<rparr>) (set_string ''paid_date'' (pd_PaidDate e) v)
      else Inr e)"

definition command_field ::
  "PurchaseCommand \<Rightarrow> string \<times> json \<Rightarrow> unmarshal_error + PurchaseCommand" where
  "command_field c kv =
     (let k = foldName (fst kv); v = snd kv in
      if k = foldName ''user_id'' then
        map_sum id (\<lambda>s. c\<lparr>cmd_UserID := s\<rparr>) (set_string ''user_id'' (cmd_UserID c) v)
      else if k = foldName ''product_id'' then
        map_sum id (\<lambda>s. c\<lparr>cmd_ProductID := s\<rparr>) (set_string ''product_id'' (cmd_ProductID c) v)
      else if k = foldName ''product_name'' then
        map_sum id (\<lambda>s. c\<lparr>cmd_ProductName := s\<rparr>)
          (set_string ''product_name'' (cmd_ProductName c) v)
      else if k = foldName ''amount'' then
        map_sum id (\<lambda>n. c\<lparr>cmd_Amount := n\<rparr>) (set_int ''amount'' (cmd_Amount c) v)
      else Inr c)"

text \<open>The zero values the structs hold before decoding (\<^verbatim>\<open>var purchaseEvent ...\<close>).\<close>

definition zero_purchase :: PurchaseCompletedEvent where
  "zero_purchase = \<lparr>pc_EventType = [], pc_OrderID = [], pc_UserID = [], pc_Amount = 0\<rparr>"

definition zero_promise :: PaymentPromiseCreatedEvent where
  "zero_promise = \<lparr>pp_EventType = [], pp_PromiseID = [], pp_OrderID = [], pp_UserID = [],
     pp_DueDate = [], pp_PaymentMode = []\<rparr>"

definition zero_bill :: MemberBillCreatedEvent where
  "zero_bill = \<lparr>mb_EventType = [], mb_BillID = [], mb_PromiseID = [], mb_UserID = [],
     mb_Amount = 0, mb_IssuedDate = []\<rparr>"

definition zero_payment :: PaymentCompletedEvent where
  "zero_payment = \<lparr>pd_EventType = [], pd_BillID = [], pd_UserID = [], pd_Amount = 0,
     pd_PaidDate = []\<rparr>"

definition zero_command :: PurchaseCommand where
  "zero_command = \<lparr>cmd_UserID = [], cmd_ProductID = [], cmd_ProductName = [], cmd_Amount = 0\<rparr>"

definition unmarshal_purchase :: "payload \<Rightarrow> unmarshal_error + PurchaseCompletedEvent" where
  "unmarshal_purchase = unmarshal_struct purchase_field ''events.PurchaseCompletedEvent'' zero_purchase"

definition unmarshal_promise :: "payload \<Rightarrow> unmarshal_error + PaymentPromiseCreatedEvent" where
  "unmarshal_promise =
     unmarshal_struct promise_field ''events.PaymentPromiseCreatedEvent'' zero_promise"

definition unmarshal_bill :: "payload \<Rightarrow> unmarshal_error + MemberBillCreatedEvent" where
  "unmarshal_bill = unmarshal_struct bill_field ''events.MemberBillCreatedEvent'' zero_bill"

definition unmarshal_payment :: "payload \<Rightarrow> unmarshal_error + PaymentCompletedEvent" where
  "unmarshal_payment =
     unmarshal_struct payment_field ''events.PaymentCompletedEvent'' zero_payment"

definition unmarshal_command :: "payload \<Rightarrow> unmarshal_error + PurchaseCommand" where
  "unmarshal_command = unmarshal_struct command_field ''commands.PurchaseCommand'' zero_command"

section \<open>Time\<close>

text \<open>
  A \<^verbatim>\<open>time.Time\<close> is an instant (nanoseconds since the Unix epoch) together with its
  location, which gives the offset from UTC, in seconds, in force at a given Unix second.
  A \<^verbatim>\<open>time.Duration\<close> is a number of nanoseconds.
\<close>

record Time =
  unix_ns :: int
  zone :: "int \<Rightarrow> int"

definition Second :: int where
  "Second = 1000000000"

definition Hour :: int where
  "Hour = 3600 * Second"

definition Add :: "Time \<Rightarrow> int \<Rightarrow> Time" where
  "Add t d = t\<lparr>unix_ns := unix_ns t + d\<rparr>"

text \<open>The civil date (year, month, day) of a day number counted from 1970-01-01.\<close>

definition civil_from_days :: "int \<Rightarrow> int \<times> int \<times> int" where
  "civil_from_days days =
     (let z = days + 719468;
          era = z div 146097;
          doe = z mod 146097;
          yoe = (doe - doe div 1460 + doe div 36524 - doe div 146096) div 365;
          y = yoe + era * 400;
          doy = doe - (365 * yoe + yoe div 4 - yoe div 100);
          mp = (5 * doy + 2) div 153;
          d = doy - (153 * mp + 2) div 5 + 1;
          m = (if mp < 10 then mp + 3 else mp - 9)
      in (if m \<le> 2 then y + 1 else y, m, d))"

definition Date :: "Time \<Rightarrow> int \<times> int \<times> int" where
  "Date t =
     (let sec = unix_ns t div Second in civil_from_days ((sec + zone t sec) div 86400))"

fun digits :: "nat \<Rightarrow> string" where
  "digits n = (if n < 10 then [char_of (48 + n)] else digits (n div 10) @ [char_of (48 + n mod 10)])"

declare digits.simps [simp del]

text \<open>\<^verbatim>\<open>appendInt\<close>: the decimal digits, padded with zeros to at least the width, after the sign.\<close>

definition appendInt :: "int \<Rightarrow> nat \<Rightarrow> string" where
  "appendInt x width =
     (let ds = digits (nat \<bar>x\<bar>)
      in (if x < 0 then ''-'' else []) @ replicate (width - length ds) (CHR ''0'') @ ds)"

text \<open>\<^verbatim>\<open>t.Format("2006-01-02")\<close>.\<close>

definition Format_date :: "Time \<Rightarrow> string" where
  "Format_date t =
     (case Date t of (y, m, d) \<Rightarrow> appendInt y 4 @ ''-'' @ appendInt m 2 @ ''-'' @ appendInt d 2)"

section \<open>The consumer's world\<close>

text \<open>The three tables of the store, as the statements of the consumer fill them.\<close>

record event_row =
  er_id :: string
  er_event_type :: string
  er_event_data :: payload

record promise_row =
  pr_id :: string
  pr_order_id :: string
  pr_user_id :: string
  pr_amount :: "64 word"
  pr_due_date :: string
  pr_payment_mode :: string

record bill_row =
  br_id :: string
  br_promise_id :: string
  br_user_id :: string
  br_amount :: "64 word"
  br_status :: string
  br_issued_date :: string
  br_paid_date :: "string option"

text \<open>The four statements of \<^verbatim>\<open>consumer.go\<close>, with their parameters in source order.\<close>

datatype sql_stmt =
    InsertEvent string string payload
  | InsertPromise string string string "64 word" string string
  | InsertBill string string string "64 word" string string
  | UpdateBill string string string

text \<open>Every call that leaves the process, with whether it succeeded.\<close>

datatype io_call =
    DbExec sql_stmt bool
  | PutRecord payload bool
  | WsWrite string bool

datatype log_line =
    LogReceived payload
  | LogGenericUnmarshalFailed
  | LogSaveEventFailed
  | LogPurchaseUnmarshalFailed
  | LogEmitPromiseFailed
  | LogPromiseUnmarshalFailed
  | LogSavePromiseFailed
  | LogPromiseProjectionCreated PaymentPromiseCreatedEvent
  | LogBillUnmarshalFailed
  | LogSaveBillFailed
  | LogBillProjectionCreated MemberBillCreatedEvent
  | LogPaymentUnmarshalFailed
  | LogUpdateBillFailed
  | LogBillStatusUpdated PaymentCompletedEvent
  | LogWsWriteFailed
  | LogEventEmitted payload
  | LogListening
  | LogIteratorNil
  | LogFatal string

record world =
  events_tbl :: "event_row list"
  payment_promises :: "promise_row list"
  member_bills :: "bill_row list"
  stream_out :: "payload list"
  ws_out :: "string list"
  logs :: "log_line list"
  calls :: "io_call list"
  uuid_ctr :: nat
  now :: Time

text \<open>
  What the surroundings answer: the UUID generator, which external calls fail (by their
  position in the history of calls), and the answers of the stream service.
\<close>

record env =
  uuid_gen :: "nat \<Rightarrow> string"
  io_fails :: "nat \<Rightarrow> bool"
  load_config_ok :: bool
  sql_open_ok :: bool
  ws_dial_ok :: bool
  describe_stream :: "string list option"
  get_shard_iterator :: "string \<Rightarrow> string option option"
  get_records :: "string option \<Rightarrow> (kinesis_record list \<times> string option) option"

datatype outcome = Returned world | Panicked world

definition logf :: "world \<Rightarrow> log_line \<Rightarrow> world" where
  "logf w l = w\<lparr>logs := logs w @ [l]\<rparr>"

definition uuid_New :: "env \<Rightarrow> world \<Rightarrow> string \<times> world" where
  "uuid_New env w = (uuid_gen env (uuid_ctr w), w\<lparr>uuid_ctr := Suc (uuid_ctr w)\<rparr>)"

text \<open>
  The effect of an accepted statement. \<^verbatim>\<open>UPDATE ... WHERE id = ?\<close> rewrites every row with
  that id and is accepted when there is none. An insert that names no paid date leaves it
  NULL.
\<close>

fun apply_stmt :: "sql_stmt \<Rightarrow> world \<Rightarrow> world" where
  "apply_stmt (InsertEvent i ty d) w =
     w\<lparr>events_tbl := events_tbl w @ [\<lparr>er_id = i, er_event_type = ty, er_event_data = d\<rparr>]\<rparr>"
| "apply_stmt (InsertPromise i ord usr amt due mode) w =
     w\<lparr>payment_promises := payment_promises w @
        [\<lparr>pr_id = i, pr_order_id = ord, pr_user_id = usr, pr_amount = amt, pr_due_date = due,
          pr_payment_mode = mode\<rparr>]\<rparr>"
| "apply_stmt (InsertBill i prm usr amt st issued) w =
     w\<lparr>member_bills := member_bills w @
        [\<lparr>br_id = i, br_promise_id = prm, br_user_id = usr, br_amount = amt, br_status = st,
          br_issued_date = issued, br_paid_date = None\<rparr>]\<rparr>"
| "apply_stmt (UpdateBill st paid i) w =
     w\<lparr>member_bills :=
        map (\<lambda>b. if br_id b = i then b\<lparr>br_status := st, br_paid_date := Some paid\<rparr> else b)
          (member_bills w)\<rparr>"

definition db_Exec :: "env \<Rightarrow> world \<Rightarrow> sql_stmt \<Rightarrow> bool \<times> world" where
  "db_Exec env w q =
     (let ok = \<not> io_fails env (length (calls w));
          w1 = w\<lparr>calls := calls w @ [DbExec q ok]\<rparr>
      in (ok, if ok then apply_stmt q w1 else w1))"

text \<open>
  \<^verbatim>\<open>producer.EmitEvent\<close>. The caller passes the struct; \<open>event\<close> is its
  \<^verbatim>\<open>json.Marshal\<close>, which cannot fail for these structs.
\<close>

definition EmitEvent :: "env \<Rightarrow> world \<Rightarrow> json \<Rightarrow> bool \<times> world" where
  "EmitEvent env w event =
     (let data = Doc event;
          ok = \<not> io_fails env (length (calls w));
          w1 = w\<lparr>calls := calls w @ [PutRecord data ok]\<rparr>
      in if ok then (True, logf (w1\<lparr>stream_out := stream_out w1 @ [data]\<rparr>) (LogEventEmitted data))
         else (False, w1))"

definition ws_WriteMessage :: "env \<Rightarrow> world \<Rightarrow> string \<Rightarrow> bool \<times> world" where
  "ws_WriteMessage env w msg =
     (let ok = \<not> io_fails env (length (calls w));
          w1 = w\<lparr>calls := calls w @ [WsWrite msg ok]\<rparr>
      in (ok, if ok then w1\<lparr>ws_out := ws_out w1 @ [msg]\<rparr> else w1))"

section \<open>The store's writers\<close>

definition saveEventToDB :: "env \<Rightarrow> world \<Rightarrow> payload \<Rightarrow> string \<Rightarrow> world" where
  "saveEventToDB env w data eventType =
     (case uuid_New env w of (i, w1) \<Rightarrow>
        (case db_Exec env w1 (InsertEvent i eventType data) of (ok, w2) \<Rightarrow>
           if ok then w2 else logf w2 LogSaveEventFailed))"

definition savePromiseToDB :: "env \<Rightarrow> world \<Rightarrow> PaymentPromiseCreatedEvent \<Rightarrow> world" where
  "savePromiseToDB env w promise =
     (case db_Exec env w
        (InsertPromise (pp_PromiseID promise) (pp_OrderID promise) (pp_UserID promise) 3500
           (pp_DueDate promise) (pp_PaymentMode promise)) of (ok, w1) \<Rightarrow>
        if ok then w1 else logf w1 LogSavePromiseFailed)"

definition saveMemberBillToDB :: "env \<Rightarrow> world \<Rightarrow> MemberBillCreatedEvent \<Rightarrow> world" where
  "saveMemberBillToDB env w bill =
     (case db_Exec env w
        (InsertBill (mb_BillID bill) (mb_PromiseID bill) (mb_UserID bill) (mb_Amount bill)
           ''unpaid'' (mb_IssuedDate bill)) of (ok, w1) \<Rightarrow>
        if ok then w1 else logf w1 LogSaveBillFailed)"

definition updateMemberBillStatus :: "env \<Rightarrow> world \<Rightarrow> PaymentCompletedEvent \<Rightarrow> world" where
  "updateMemberBillStatus env w payment =
     (case db_Exec env w (UpdateBill ''paid'' (pd_PaidDate payment) (pd_BillID payment)) of
        (ok, w1) \<Rightarrow> if ok then w1 else logf w1 LogUpdateBillFailed)"

section \<open>The choreographer: \<^verbatim>\<open>processEvent\<close>\<close>

text \<open>The fixed payment mode, the UTF-8 bytes of the source's string literal.\<close>

definition fixed_payment_mode :: string where
  "fixed_payment_mode = map char_of
     [0xE6, 0x9C, 0x88, 0xE3, 0x81, 0xBE, 0xE3, 0x81, 0xA8, 0xE3, 0x82, 0x81, 0xE6, 0x89, 0x95,
      0xE3, 0x81, 0x84 :: nat]"

text \<open>The four cases of the \<^verbatim>\<open>switch\<close>, each under the name of its label.\<close>

definition case_PurchaseCompletedEvent :: "env \<Rightarrow> world \<Rightarrow> kinesis_record \<Rightarrow> outcome" where
  "case_PurchaseCompletedEvent env w rec =
     (case unmarshal_purchase (Data rec) of
        Inl err \<Rightarrow> Returned (logf w LogPurchaseUnmarshalFailed)
      | Inr purchaseEvent \<Rightarrow>
          (case uuid_New env w of (promiseID, w1) \<Rightarrow>
             (let promiseEvent =
                \<lparr>pp_EventType = ''PaymentPromiseCreatedEvent'',
                 pp_PromiseID = promiseID,
                 pp_OrderID = pc_OrderID purchaseEvent,
                 pp_UserID = pc_UserID purchaseEvent,
                 pp_DueDate = Format_date (Add (now w1) (30 * 24 * Hour)),
                 pp_PaymentMode = fixed_payment_mode\<rparr>
              in (case EmitEvent env w1 (marshal_promise promiseEvent) of (ok, w2) \<Rightarrow>
                    Returned (if ok then w2 else logf w2 LogEmitPromiseFailed)))))"

definition case_PaymentPromiseCreatedEvent :: "env \<Rightarrow> world \<Rightarrow> kinesis_record \<Rightarrow> outcome" where
  "case_PaymentPromiseCreatedEvent env w rec =
     (case unmarshal_promise (Data rec) of
        Inl err \<Rightarrow> Returned (logf w LogPromiseUnmarshalFailed)
      | Inr promiseEvent \<Rightarrow>
          Returned (logf (savePromiseToDB env w promiseEvent)
                      (LogPromiseProjectionCreated promiseEvent)))"

definition case_MemberBillCreatedEvent :: "env \<Rightarrow> world \<Rightarrow> kinesis_record \<Rightarrow> outcome" where
  "case_MemberBillCreatedEvent env w rec =
     (case unmarshal_bill (Data rec) of
        Inl err \<Rightarrow> Returned (logf w LogBillUnmarshalFailed)
      | Inr billEvent \<Rightarrow>
          Returned (logf (saveMemberBillToDB env w billEvent)
                      (LogBillProjectionCreated billEvent)))"

definition case_PaymentCompletedEvent :: "env \<Rightarrow> world \<Rightarrow> kinesis_record \<Rightarrow> outcome" where
  "case_PaymentCompletedEvent env w rec =
     (case unmarshal_payment (Data rec) of
        Inl err \<Rightarrow> Returned (logf w LogPaymentUnmarshalFailed)
      | Inr paymentEvent \<Rightarrow>
          (let w1 = logf (updateMemberBillStatus env w paymentEvent)
                      (LogBillStatusUpdated paymentEvent)
           in (case ws_WriteMessage env w1 ''update'' of (ok, w2) \<Rightarrow>
                 Returned (if ok then w2 else logf w2 LogWsWriteFailed))))"

definition processEvent :: "env \<Rightarrow> world \<Rightarrow> kinesis_record \<Rightarrow> outcome" where
  "processEvent env w0 rec =
     (let w = logf w0 (LogReceived (Data rec)) in
      case unmarshal_generic (Data rec) of
        Inl err \<Rightarrow> Returned (logf w LogGenericUnmarshalFailed)
      | Inr genericEvent \<Rightarrow>
          (case assert_string (genericEvent ''event_type'') of
             None \<Rightarrow> Panicked w
           | Some eventType \<Rightarrow>
               (let w1 = saveEventToDB env w (Data rec) eventType in
                if eventType = ''PurchaseCompletedEvent'' then
                  case_PurchaseCompletedEvent env w1 rec
                else if eventType = ''PaymentPromiseCreatedEvent'' then
                  case_PaymentPromiseCreatedEvent env w1 rec
                else if eventType = ''MemberBillCreatedEvent'' then
                  case_MemberBillCreatedEvent env w1 rec
                else if eventType = ''PaymentCompletedEvent'' then
                  case_PaymentCompletedEvent env w1 rec
                else Returned w1)))"

section \<open>The stream reader: \<^verbatim>\<open>main\<close> of the consumer\<close>

text \<open>The \<^verbatim>\<open>for _, record := range recordsOutput.Records\<close> loop; a panic ends it.\<close>

fun process_records :: "env \<Rightarrow> world \<Rightarrow> kinesis_record list \<Rightarrow> outcome" where
  "process_records env w [] = Returned w"
| "process_records env w (r # rs) =
     (case processEvent env w r of
        Panicked w' \<Rightarrow> Panicked w'
      | Returned w' \<Rightarrow> process_records env w' rs)"

text \<open>
  How a run ends: \<open>Exited\<close> is the normal return of \<^verbatim>\<open>main\<close> after \<^verbatim>\<open>break\<close>, \<open>Fatal\<close>
  is \<^verbatim>\<open>log.Fatal\<close> (the process exits at once), \<open>Crashed\<close> is an unrecovered panic, and
  \<open>Polling\<close> is a loop that has not ended within the number of polls looked at.
\<close>

datatype run = Exited world | Fatal world | Crashed world | Polling world

definition fatal :: "world \<Rightarrow> string \<Rightarrow> run" where
  "fatal w msg = Fatal (logf w (LogFatal msg))"

text \<open>
  The polling loop, with the number of polls still looked at. \<^verbatim>\<open>time.Sleep\<close> moves the
  clock on by one second.
\<close>

fun poll_loop :: "nat \<Rightarrow> env \<Rightarrow> world \<Rightarrow> string option \<Rightarrow> run" where
  "poll_loop 0 env w shardIterator = Polling w"
| "poll_loop (Suc n) env w shardIterator =
     (case get_records env shardIterator of
        None \<Rightarrow> fatal w ''failed to get records''
      | Some (records, nextShardIterator) \<Rightarrow>
          (case process_records env w records of
             Panicked w' \<Rightarrow> Crashed w'
           | Returned w' \<Rightarrow>
               (case nextShardIterator of
                  None \<Rightarrow> Exited (logf w' LogIteratorNil)
                | Some it \<Rightarrow> poll_loop n env (w'\<lparr>now := Add (now w') (1 * Second)\<rparr>) (Some it))))"

definition consumer_main :: "nat \<Rightarrow> env \<Rightarrow> world \<Rightarrow> run" where
  "consumer_main n env w =
     (if \<not> load_config_ok env then fatal w ''unable to load SDK config''
      else if \<not> sql_open_ok env then fatal w ''failed to connect to database''
      else if \<not> ws_dial_ok env then fatal w ''failed to connect to WebSocket server''
      else case describe_stream env of
        None \<Rightarrow> fatal w ''failed to get shards''
      | Some shards \<Rightarrow>
          (case shards of
             [] \<Rightarrow> fatal w ''no shards found''
           | shardID # others \<Rightarrow>
               (case get_shard_iterator env shardID of
                  None \<Rightarrow> fatal w ''failed to get shard iterator''
                | Some shardIterator \<Rightarrow> poll_loop n env (logf w LogListening) shardIterator)))"

section \<open>Command intake: \<^verbatim>\<open>POST /purchase\<close>\<close>

datatype http_status = StatusOK | StatusBadRequest | StatusInternalServerError

text \<open>
  The handler binds the request body to a \<^verbatim>\<open>PurchaseCommand\<close> (no field is marked
  required), builds the event and emits it. The second component is the event handed to
  \<^verbatim>\<open>EmitEvent\<close>, if the handler got that far.
\<close>

definition post_purchase ::
  "env \<Rightarrow> world \<Rightarrow> payload \<Rightarrow> http_status \<times> PurchaseCompletedEvent option \<times> world" where
  "post_purchase env w body =
     (case unmarshal_command body of
        Inl err \<Rightarrow> (StatusBadRequest, None, w)
      | Inr cmd \<Rightarrow>
          (let purchaseEvent =
             \<lparr>pc_EventType = ''PurchaseCompletedEvent'',
              pc_OrderID = ''order-'' @ cmd_UserID cmd,
              pc_UserID = cmd_UserID cmd,
              pc_Amount = cmd_Amount cmd\<rparr>
           in (case EmitEvent env w (marshal_purchase purchaseEvent) of (ok, w1) \<Rightarrow>
                 (if ok then StatusOK else StatusInternalServerError, Some purchaseEvent, w1))))"

section \<open>Observations and sample inputs\<close>

text \<open>The world an outcome leaves behind, and the messages written to the notifier.\<close>

fun world_of :: "outcome \<Rightarrow> world" where
  "world_of (Returned w) = w"
| "world_of (Panicked w) = w"

fun ws_writes :: "io_call list \<Rightarrow> string list" where
  "ws_writes [] = []"
| "ws_writes (WsWrite msg ok # cs) = msg # ws_writes cs"
| "ws_writes (c # cs) = ws_writes cs"

text \<open>The rows the calls of a history ask the event log to take.\<close>

fun event_appends :: "io_call list \<Rightarrow> (string \<times> string \<times> payload) list" where
  "event_appends [] = []"
| "event_appends (DbExec (InsertEvent i ty d) ok # cs) = (i, ty, d) # event_appends cs"
| "event_appends (c # cs) = event_appends cs"


text \<open>
  Surroundings in which every call succeeds and the stream has one shard that closes at
  the first poll; a clock at 2024-01-01 00:00:00 UTC; an empty store.
\<close>

definition sample_env :: env where
  "sample_env =
     \<lparr>uuid_gen = (\<lambda>n. ''uuid-'' @ digits n),
      io_fails = (\<lambda>n. False),
      load_config_ok = True,
      sql_open_ok = True,
      ws_dial_ok = True,
      describe_stream = Some [''shardId-000000000000''],
      get_shard_iterator = (\<lambda>shard. Some (Some ''iterator-0'')),
      get_records = (\<lambda>it. Some ([], None))\<rparr>"

definition sample_time :: Time where
  "sample_time = \<lparr>unix_ns = 1704067200 * 1000000000, zone = (\<lambda>sec. 0)\<rparr>"

definition sample_world :: world where
  "sample_world =
     \<lparr>events_tbl = [], payment_promises = [], member_bills = [], stream_out = [], ws_out = [],
      logs = [], calls = [], uuid_ctr = 0, now = sample_time\<rparr>"

definition sample_purchase :: PurchaseCompletedEvent where
  "sample_purchase =
     \<lparr>pc_EventType = ''PurchaseCompletedEvent'', pc_OrderID = ''o1'', pc_UserID = ''u1'',
      pc_Amount = 3500\<rparr>"

definition sample_promise :: PaymentPromiseCreatedEvent where
  "sample_promise =
     \<lparr>pp_EventType = ''PaymentPromiseCreatedEvent'', pp_PromiseID = ''p1'', pp_OrderID = ''o1'',
      pp_UserID = ''u1'', pp_DueDate = ''2024-01-31'', pp_PaymentMode = fixed_payment_mode\<rparr>"

definition sample_bill :: MemberBillCreatedEvent where
  "sample_bill =
     \<lparr>mb_EventType = ''MemberBillCreatedEvent'', mb_BillID = ''b1'', mb_PromiseID = ''p1'',
      mb_UserID = ''u1'', mb_Amount = 1200, mb_IssuedDate = ''2024-01-05''\<rparr>"

definition sample_payment :: PaymentCompletedEvent where
  "sample_payment =
     \<lparr>pd_EventType = ''PaymentCompletedEvent'', pd_BillID = ''b1'', pd_UserID = ''u1'',
      pd_Amount = 1200, pd_PaidDate = ''2024-01-20''\<rparr>"

text \<open>A payment for a bill the store has never seen.\<close>

definition sample_payment_unknown :: PaymentCompletedEvent where
  "sample_payment_unknown =
     \<lparr>pd_EventType = ''PaymentCompletedEvent'', pd_BillID = ''b9'', pd_UserID = ''u1'',
      pd_Amount = 1200, pd_PaidDate = ''2024-01-20''\<rparr>"

text \<open>The store after the sample bill has been projected, still unpaid.\<close>

definition sample_world_billed :: world where
  "sample_world_billed =
     sample_world\<lparr>member_bills :=
       [\<lparr>br_id = ''b1'', br_promise_id = ''p1'', br_user_id = ''u1'', br_amount = 1200,
         br_status = ''unpaid'', br_issued_date = ''2024-01-05'', br_paid_date = None\<rparr>]\<rparr>"

section \<open>Facts about the codec\<close>

lemma fold_event_type: "foldName ''event_type'' = ''EVENT_TYPE''" by code_simp
lemma fold_order_id: "foldName ''order_id'' = ''ORDER_ID''" by code_simp
lemma fold_user_id: "foldName ''user_id'' = ''USER_ID''" by code_simp
lemma fold_amount: "foldName ''amount'' = ''AMOUNT''" by code_simp
lemma fold_promise_id: "foldName ''promise_id'' = ''PROMISE_ID''" by code_simp
lemma fold_due_date: "foldName ''due_date'' = ''DUE_DATE''" by code_simp
lemma fold_payment_mode: "foldName ''payment_mode'' = ''PAYMENT_MODE''" by code_simp
lemma fold_bill_id: "foldName ''bill_id'' = ''BILL_ID''" by code_simp
lemma fold_issued_date: "foldName ''issued_date'' = ''ISSUED_DATE''" by code_simp
lemma fold_paid_date: "foldName ''paid_date'' = ''PAID_DATE''" by code_simp
lemma fold_product_id: "foldName ''product_id'' = ''PRODUCT_ID''" by code_simp
lemma fold_product_name: "foldName ''product_name'' = ''PRODUCT_NAME''" by code_simp

lemmas fold_tags = fold_event_type fold_order_id fold_user_id fold_amount fold_promise_id
  fold_due_date fold_payment_mode fold_bill_id fold_issued_date fold_paid_date fold_product_id
  fold_product_name

lemma sint64_ge: "- 9223372036854775808 \<le> sint (a :: 64 word)"
  using sint_ge [of a] by simp

lemma sint64_lt: "sint (a :: 64 word) < 9223372036854775808"
  using sint_lt [of a] by simp

lemma unmarshal_marshal_purchase: "unmarshal_purchase (Doc (marshal_purchase e)) = Inr e"
  by (simp add: unmarshal_purchase_def marshal_purchase_def purchase_field_def fold_tags
      sint64_ge sint64_lt zero_purchase_def)

lemma unmarshal_marshal_promise: "unmarshal_promise (Doc (marshal_promise e)) = Inr e"
  by (simp add: unmarshal_promise_def marshal_promise_def promise_field_def fold_tags
      zero_promise_def)

lemma unmarshal_marshal_bill: "unmarshal_bill (Doc (marshal_bill e)) = Inr e"
  by (simp add: unmarshal_bill_def marshal_bill_def bill_field_def fold_tags
      sint64_ge sint64_lt zero_bill_def)

lemma unmarshal_marshal_payment: "unmarshal_payment (Doc (marshal_payment e)) = Inr e"
  by (simp add: unmarshal_payment_def marshal_payment_def payment_field_def fold_tags
      sint64_ge sint64_lt zero_payment_def)

lemma generic_marshal_purchase:
  "\<exists>g. unmarshal_generic (Doc (marshal_purchase e)) = Inr g \<and>
     assert_string (g ''event_type'') = Some (pc_EventType e)"
  by (simp add: marshal_purchase_def)

lemma generic_marshal_promise:
  "\<exists>g. unmarshal_generic (Doc (marshal_promise e)) = Inr g \<and>
     assert_string (g ''event_type'') = Some (pp_EventType e)"
  by (simp add: marshal_promise_def)

lemma generic_marshal_bill:
  "\<exists>g. unmarshal_generic (Doc (marshal_bill e)) = Inr g \<and>
     assert_string (g ''event_type'') = Some (mb_EventType e)"
  by (simp add: marshal_bill_def)

lemma generic_marshal_payment:
  "\<exists>g. unmarshal_generic (Doc (marshal_payment e)) = Inr g \<and>
     assert_string (g ''event_type'') = Some (pd_EventType e)"
  by (simp add: marshal_payment_def)


section \<open>Facts about \<^verbatim>\<open>processEvent\<close>\<close>

lemma processEvent_typed:
  assumes "unmarshal_generic (Data rec) = Inr g"
    and "assert_string (g ''event_type'') = Some ty"
  shows "processEvent env w rec =
     (let w1 = saveEventToDB env (logf w (LogReceived (Data rec))) (Data rec) ty in
      if ty = ''PurchaseCompletedEvent'' then case_PurchaseCompletedEvent env w1 rec
      else if ty = ''PaymentPromiseCreatedEvent'' then case_PaymentPromiseCreatedEvent env w1 rec
      else if ty = ''MemberBillCreatedEvent'' then case_MemberBillCreatedEvent env w1 rec
      else if ty = ''PaymentCompletedEvent'' then case_PaymentCompletedEvent env w1 rec
      else Returned w1)"
  using assms by (simp add: processEvent_def Let_def)

lemma saveEventToDB_effect:
  "saveEventToDB env w d ty =
     (let ok = \<not> io_fails env (length (calls w));
          q = InsertEvent (uuid_gen env (uuid_ctr w)) ty d
      in w\<lparr>uuid_ctr := Suc (uuid_ctr w),
            calls := calls w @ [DbExec q ok],
            events_tbl := events_tbl w @
              (if ok then [\<lparr>er_id = uuid_gen env (uuid_ctr w), er_event_type = ty,
                              er_event_data = d\<rparr>] else []),
            logs := logs w @ (if ok then [] else [LogSaveEventFailed])\<rparr>)"
  by (simp add: saveEventToDB_def uuid_New_def db_Exec_def logf_def Let_def)

text \<open>
  Claim C1, at the record \<^verbatim>\<open>{}\<close>: valid JSON with no \<^verbatim>\<open>event_type\<close>. The generic
  decode succeeds, the type assertion panics, and the loop over the batch ends in that
  panic whatever records follow: the record is not dropped and the later records are not
  processed.
\<close>

theorem C1_missing_discriminator_panics:
  "processEvent env w \<lparr>Data = Doc (JObject [])\<rparr> =
     Panicked (logf w (LogReceived (Doc (JObject []))))
   \<and> process_records env w (\<lparr>Data = Doc (JObject [])\<rparr> # rs) =
     Panicked (logf w (LogReceived (Doc (JObject []))))"
  by (simp add: processEvent_def Let_def)

text \<open>
  Claim C6, at the record \<^verbatim>\<open>{"event_type": 7}\<close>: the generic decode succeeds, and
  \<^verbatim>\<open>processEvent\<close> panics while evaluating the arguments of \<^verbatim>\<open>saveEventToDB\<close>, so no
  statement reaches the store and the events table is as it was.
\<close>

theorem C6_panic_precedes_append:
  "(\<exists>g. unmarshal_generic (Doc (JObject [(''event_type'', JInt 7)])) = Inr g)
   \<and> (\<exists>w'. processEvent env w \<lparr>Data = Doc (JObject [(''event_type'', JInt 7)])\<rparr> = Panicked w'
          \<and> events_tbl w' = events_tbl w \<and> calls w' = calls w)"
  by (simp add: processEvent_def Let_def logf_def)

section \<open>The saga steps\<close>

lemma digits_1: "digits (Suc 0) = ''1''" by code_simp
lemma digits_0: "digits 0 = ''0''" by code_simp

lemma sample_due_date: "Format_date (Add sample_time (720 * Hour)) = ''2024-01-31''"
  by code_simp

text \<open>
  Claim C2. A record carrying a \<^verbatim>\<open>PurchaseCompletedEvent\<close> as the producer encodes it is
  processed without a panic. After the append to the event log, the only call that leaves
  the process is one \<^verbatim>\<open>PutRecord\<close> of a \<^verbatim>\<open>PaymentPromiseCreatedEvent\<close> whose order and
  user are the purchase's, whose promise id is the UUID drawn after the log row's, whose
  due date is the date, in the clock's location, of the processing time plus 720 hours,
  and whose payment mode is the fixed literal. The stream receives that one record when
  the call succeeds. Neither projection table changes.
\<close>

theorem C2_purchase_emits_one_promise:
  assumes "Data rec = Doc (marshal_purchase e)"
    and "pc_EventType e = ''PurchaseCompletedEvent''"
  shows "\<exists>w'. processEvent env w rec = Returned w'
     \<and> calls w' = calls w @
          [DbExec (InsertEvent (uuid_gen env (uuid_ctr w)) ''PurchaseCompletedEvent'' (Data rec))
             (\<not> io_fails env (length (calls w))),
           PutRecord (Doc (marshal_promise
              \<lparr>pp_EventType = ''PaymentPromiseCreatedEvent'',
               pp_PromiseID = uuid_gen env (Suc (uuid_ctr w)),
               pp_OrderID = pc_OrderID e,
               pp_UserID = pc_UserID e,
               pp_DueDate = Format_date (Add (now w) (30 * 24 * Hour)),
               pp_PaymentMode = fixed_payment_mode\<rparr>))
             (\<not> io_fails env (Suc (length (calls w))))]
     \<and> stream_out w' = stream_out w @
          (if io_fails env (Suc (length (calls w))) then []
           else [Doc (marshal_promise
              \<lparr>pp_EventType = ''PaymentPromiseCreatedEvent'',
               pp_PromiseID = uuid_gen env (Suc (uuid_ctr w)),
               pp_OrderID = pc_OrderID e,
               pp_UserID = pc_UserID e,
               pp_DueDate = Format_date (Add (now w) (30 * 24 * Hour)),
               pp_PaymentMode = fixed_payment_mode\<rparr>)])
     \<and> uuid_ctr w' = uuid_ctr w + 2
     \<and> payment_promises w' = payment_promises w
     \<and> member_bills w' = member_bills w"
proof -
  obtain g where g: "unmarshal_generic (Data rec) = Inr g"
      "assert_string (g ''event_type'') = Some ''PurchaseCompletedEvent''"
    using generic_marshal_purchase [of e] assms by auto
  have dec: "unmarshal_purchase (Data rec) = Inr e"
    using assms unmarshal_marshal_purchase by simp
  show ?thesis
    unfolding processEvent_typed [OF g]
    by (simp add: Let_def case_PurchaseCompletedEvent_def dec saveEventToDB_effect uuid_New_def
        EmitEvent_def logf_def)
qed

text \<open>
  The scenario of the specification: order \<open>o1\<close> of user \<open>u1\<close>, processed on 2024-01-01,
  yields a promise due on 2024-01-31.
\<close>

theorem C2_witness:
  "Data \<lparr>Data = Doc (marshal_purchase sample_purchase)\<rparr> = Doc (marshal_purchase sample_purchase)
   \<and> pc_EventType sample_purchase = ''PurchaseCompletedEvent''
   \<and> (\<exists>w'. processEvent sample_env sample_world \<lparr>Data = Doc (marshal_purchase sample_purchase)\<rparr>
          = Returned w'
        \<and> stream_out w' =
           [Doc (marshal_promise
              \<lparr>pp_EventType = ''PaymentPromiseCreatedEvent'', pp_PromiseID = ''uuid-1'',
               pp_OrderID = ''o1'', pp_UserID = ''u1'', pp_DueDate = ''2024-01-31'',
               pp_PaymentMode = fixed_payment_mode\<rparr>)]
        \<and> payment_promises w' = [] \<and> member_bills w' = [])"
proof -
  have h1: "Data \<lparr>Data = Doc (marshal_purchase sample_purchase)\<rparr>
      = Doc (marshal_purchase sample_purchase)" by simp
  have h2: "pc_EventType sample_purchase = ''PurchaseCompletedEvent''"
    by (simp add: sample_purchase_def)
  have now: "now sample_world = sample_time" by (simp add: sample_world_def)
  show ?thesis
    using C2_purchase_emits_one_promise [OF h1 h2, of sample_env sample_world] h2
    by (simp add: sample_env_def sample_world_def sample_purchase_def digits_1 digits_0
        sample_due_date) blast
qed

text \<open>
  Claim C5. A record carrying a \<^verbatim>\<open>PaymentPromiseCreatedEvent\<close> as the producer encodes it
  is processed without a panic. After the append to the event log, exactly one statement
  is issued: the insert of a promise row with the event's promise, order and user
  identifiers, due date and mode, and the amount 3500 written in the source, which no
  event and no earlier state can change. Accepted, it adds that one row; refused, it adds
  none. Nothing is emitted, no bill changes, no notification is sent.
\<close>

theorem C5_promise_row_inserted:
  assumes "Data rec = Doc (marshal_promise e)"
    and "pp_EventType e = ''PaymentPromiseCreatedEvent''"
  shows "\<exists>w'. processEvent env w rec = Returned w'
     \<and> calls w' = calls w @
          [DbExec (InsertEvent (uuid_gen env (uuid_ctr w)) ''PaymentPromiseCreatedEvent''
             (Data rec)) (\<not> io_fails env (length (calls w))),
           DbExec (InsertPromise (pp_PromiseID e) (pp_OrderID e) (pp_UserID e) 3500
             (pp_DueDate e) (pp_PaymentMode e)) (\<not> io_fails env (Suc (length (calls w))))]
     \<and> payment_promises w' = payment_promises w @
          (if io_fails env (Suc (length (calls w))) then []
           else [\<lparr>pr_id = pp_PromiseID e, pr_order_id = pp_OrderID e, pr_user_id = pp_UserID e,
                   pr_amount = 3500, pr_due_date = pp_DueDate e,
                   pr_payment_mode = pp_PaymentMode e\<rparr>])
     \<and> member_bills w' = member_bills w
     \<and> stream_out w' = stream_out w
     \<and> ws_out w' = ws_out w"
proof -
  obtain g where g: "unmarshal_generic (Data rec) = Inr g"
      "assert_string (g ''event_type'') = Some ''PaymentPromiseCreatedEvent''"
    using generic_marshal_promise [of e] assms by auto
  have dec: "unmarshal_promise (Data rec) = Inr e"
    using assms unmarshal_marshal_promise by simp
  show ?thesis
    unfolding processEvent_typed [OF g]
    by (simp add: Let_def case_PaymentPromiseCreatedEvent_def dec saveEventToDB_effect
        savePromiseToDB_def db_Exec_def logf_def)
qed

text \<open>The promise \<open>p1\<close> of order \<open>o1\<close> lands in an empty store as a single row.\<close>

theorem C5_witness:
  "Data \<lparr>Data = Doc (marshal_promise sample_promise)\<rparr> = Doc (marshal_promise sample_promise)
   \<and> pp_EventType sample_promise = ''PaymentPromiseCreatedEvent''
   \<and> (\<exists>w'. processEvent sample_env sample_world \<lparr>Data = Doc (marshal_promise sample_promise)\<rparr>
          = Returned w'
        \<and> payment_promises w' =
           [\<lparr>pr_id = ''p1'', pr_order_id = ''o1'', pr_user_id = ''u1'', pr_amount = 3500,
             pr_due_date = ''2024-01-31'', pr_payment_mode = fixed_payment_mode\<rparr>])"
proof -
  have h1: "Data \<lparr>Data = Doc (marshal_promise sample_promise)\<rparr>
      = Doc (marshal_promise sample_promise)" by simp
  have h2: "pp_EventType sample_promise = ''PaymentPromiseCreatedEvent''"
    by (simp add: sample_promise_def)
  show ?thesis
    using C5_promise_row_inserted [OF h1 h2, of sample_env sample_world] h2
    by (simp add: sample_env_def sample_world_def sample_promise_def) blast
qed

text \<open>
  Claim C9. A record carrying a \<^verbatim>\<open>MemberBillCreatedEvent\<close> as the producer encodes it is
  processed without a panic. After the append to the event log, exactly one statement is
  issued: the insert of a bill row whose identifier, promise, user, amount and issue date
  are the event's, with status \<open>unpaid\<close> and no paid date. The row's identifier is the
  event's \<^verbatim>\<open>BillID\<close> whatever the UUID generator returns. Accepted, the statement adds that
  one row; refused, it adds none.
\<close>

theorem C9_bill_row_inserted:
  assumes "Data rec = Doc (marshal_bill e)"
    and "mb_EventType e = ''MemberBillCreatedEvent''"
  shows "\<exists>w'. processEvent env w rec = Returned w'
     \<and> calls w' = calls w @
          [DbExec (InsertEvent (uuid_gen env (uuid_ctr w)) ''MemberBillCreatedEvent''
             (Data rec)) (\<not> io_fails env (length (calls w))),
           DbExec (InsertBill (mb_BillID e) (mb_PromiseID e) (mb_UserID e) (mb_Amount e)
             ''unpaid'' (mb_IssuedDate e)) (\<not> io_fails env (Suc (length (calls w))))]
     \<and> member_bills w' = member_bills w @
          (if io_fails env (Suc (length (calls w))) then []
           else [\<lparr>br_id = mb_BillID e, br_promise_id = mb_PromiseID e, br_user_id = mb_UserID e,
                   br_amount = mb_Amount e, br_status = ''unpaid'',
                   br_issued_date = mb_IssuedDate e, br_paid_date = None\<rparr>])
     \<and> payment_promises w' = payment_promises w
     \<and> stream_out w' = stream_out w
     \<and> ws_out w' = ws_out w"
proof -
  obtain g where g: "unmarshal_generic (Data rec) = Inr g"
      "assert_string (g ''event_type'') = Some ''MemberBillCreatedEvent''"
    using generic_marshal_bill [of e] assms by auto
  have dec: "unmarshal_bill (Data rec) = Inr e"
    using assms unmarshal_marshal_bill by simp
  show ?thesis
    unfolding processEvent_typed [OF g]
    by (simp add: Let_def case_MemberBillCreatedEvent_def dec saveEventToDB_effect
        saveMemberBillToDB_def db_Exec_def logf_def)
qed

text \<open>The bill \<open>b1\<close> lands in an empty store as a single unpaid row.\<close>

theorem C9_witness:
  "Data \<lparr>Data = Doc (marshal_bill sample_bill)\<rparr> = Doc (marshal_bill sample_bill)
   \<and> mb_EventType sample_bill = ''MemberBillCreatedEvent''
   \<and> (\<exists>w'. processEvent sample_env sample_world \<lparr>Data = Doc (marshal_bill sample_bill)\<rparr>
          = Returned w'
        \<and> member_bills w' = member_bills sample_world_billed)"
proof -
  have h1: "Data \<lparr>Data = Doc (marshal_bill sample_bill)\<rparr> = Doc (marshal_bill sample_bill)"
    by simp
  have h2: "mb_EventType sample_bill = ''MemberBillCreatedEvent''"
    by (simp add: sample_bill_def)
  show ?thesis
    using C9_bill_row_inserted [OF h1 h2, of sample_env sample_world] h2
    by (simp add: sample_env_def sample_world_def sample_bill_def sample_world_billed_def) blast
qed

lemma ws_writes_append: "ws_writes (xs @ ys) = ws_writes xs @ ws_writes ys"
  by (induction xs rule: ws_writes.induct) simp_all

lemma payment_completed_effect:
  assumes "Data rec = Doc (marshal_payment e)"
    and "pd_EventType e = ''PaymentCompletedEvent''"
  shows "\<exists>w'. processEvent env w rec = Returned w'
     \<and> calls w' = calls w @
          [DbExec (InsertEvent (uuid_gen env (uuid_ctr w)) ''PaymentCompletedEvent''
             (Data rec)) (\<not> io_fails env (length (calls w))),
           DbExec (UpdateBill ''paid'' (pd_PaidDate e) (pd_BillID e))
             (\<not> io_fails env (Suc (length (calls w)))),
           WsWrite ''update'' (\<not> io_fails env (Suc (Suc (length (calls w)))))]
     \<and> member_bills w' =
          (if io_fails env (Suc (length (calls w))) then member_bills w
           else map (\<lambda>b. if br_id b = pd_BillID e
                           then b\<lparr>br_status := ''paid'', br_paid_date := Some (pd_PaidDate e)\<rparr>
                           else b) (member_bills w))
     \<and> ws_out w' = ws_out w @
          (if io_fails env (Suc (Suc (length (calls w)))) then [] else [''update''])
     \<and> payment_promises w' = payment_promises w
     \<and> stream_out w' = stream_out w"
proof -
  obtain g where g: "unmarshal_generic (Data rec) = Inr g"
      "assert_string (g ''event_type'') = Some ''PaymentCompletedEvent''"
    using generic_marshal_payment [of e] assms by auto
  have dec: "unmarshal_payment (Data rec) = Inr e"
    using assms unmarshal_marshal_payment by simp
  show ?thesis
    unfolding processEvent_typed [OF g]
    by (simp add: Let_def case_PaymentCompletedEvent_def dec saveEventToDB_effect
        updateMemberBillStatus_def db_Exec_def ws_WriteMessage_def logf_def)
qed

lemma mark_paid_twice:
  "map (\<lambda>b. if br_id b = i then b\<lparr>br_status := st, br_paid_date := Some d\<rparr> else b)
     (map (\<lambda>b. if br_id b = i then b\<lparr>br_status := st, br_paid_date := Some d\<rparr> else b) bs)
   = map (\<lambda>b. if br_id b = i then b\<lparr>br_status := st, br_paid_date := Some d\<rparr> else b) bs"
  by (induction bs) simp_all

lemma mark_paid_no_match:
  "i \<notin> set (map br_id bs) \<Longrightarrow>
   map (\<lambda>b. if br_id b = i then b\<lparr>br_status := st, br_paid_date := Some d\<rparr> else b) bs = bs"
  by (induction bs) auto

text \<open>
  Claim C3. A record carrying a \<^verbatim>\<open>PaymentCompletedEvent\<close> as the producer encodes it is
  processed without a panic. When the store accepts the update, every bill row with the
  event's bill identifier has status \<open>paid\<close> and the event's paid date, its other fields
  and all other rows being as before; processing the same record again, in any
  surroundings, returns as well and leaves the bill rows as the first processing left
  them. When no row has the event's bill identifier, the bill rows are as before.
\<close>

theorem C3_payment_marks_bill_paid:
  assumes "Data rec = Doc (marshal_payment e)"
    and "pd_EventType e = ''PaymentCompletedEvent''"
  shows "\<exists>w1. processEvent env w rec = Returned w1
     \<and> (\<not> io_fails env (Suc (length (calls w))) \<longrightarrow>
          member_bills w1 =
            map (\<lambda>b. if br_id b = pd_BillID e
                      then b\<lparr>br_status := ''paid'', br_paid_date := Some (pd_PaidDate e)\<rparr>
                      else b) (member_bills w)
          \<and> (\<exists>w2. processEvent env2 w1 rec = Returned w2 \<and> member_bills w2 = member_bills w1))
     \<and> (pd_BillID e \<notin> set (map br_id (member_bills w)) \<longrightarrow>
          member_bills w1 = member_bills w)"
proof -
  obtain w1 where w1: "processEvent env w rec = Returned w1"
    and bills1: "member_bills w1 =
          (if io_fails env (Suc (length (calls w))) then member_bills w
           else map (\<lambda>b. if br_id b = pd_BillID e
                           then b\<lparr>br_status := ''paid'', br_paid_date := Some (pd_PaidDate e)\<rparr>
                           else b) (member_bills w))"
    using payment_completed_effect [OF assms, of env w] by blast
  obtain w2 where w2: "processEvent env2 w1 rec = Returned w2"
    and bills2: "member_bills w2 =
          (if io_fails env2 (Suc (length (calls w1))) then member_bills w1
           else map (\<lambda>b. if br_id b = pd_BillID e
                           then b\<lparr>br_status := ''paid'', br_paid_date := Some (pd_PaidDate e)\<rparr>
                           else b) (member_bills w1))"
    using payment_completed_effect [OF assms, of env2 w1] by blast
  have again: "\<not> io_fails env (Suc (length (calls w))) \<Longrightarrow> member_bills w2 = member_bills w1"
    using bills1 bills2 by (simp add: mark_paid_twice)
  have nomatch: "pd_BillID e \<notin> set (map br_id (member_bills w)) \<Longrightarrow>
      member_bills w1 = member_bills w"
    using bills1 by (simp add: mark_paid_no_match)
  show ?thesis
    using w1 w2 bills1 again nomatch by auto
qed


text \<open>
  The unpaid bill \<open>b1\<close> becomes paid on 2024-01-20 and stays so at a second delivery; a
  payment for the unknown bill \<open>b9\<close> changes nothing.
\<close>

theorem C3_witness:
  "Data \<lparr>Data = Doc (marshal_payment sample_payment)\<rparr> = Doc (marshal_payment sample_payment)
   \<and> pd_EventType sample_payment = ''PaymentCompletedEvent''
   \<and> \<not> io_fails sample_env (Suc (length (calls sample_world_billed)))
   \<and> (\<exists>w1. processEvent sample_env sample_world_billed
               \<lparr>Data = Doc (marshal_payment sample_payment)\<rparr> = Returned w1
          \<and> member_bills w1 =
              [\<lparr>br_id = ''b1'', br_promise_id = ''p1'', br_user_id = ''u1'', br_amount = 1200,
                br_status = ''paid'', br_issued_date = ''2024-01-05'',
                br_paid_date = Some ''2024-01-20''\<rparr>]
          \<and> (\<exists>w2. processEvent sample_env w1 \<lparr>Data = Doc (marshal_payment sample_payment)\<rparr>
                 = Returned w2 \<and> member_bills w2 = member_bills w1))
   \<and> pd_EventType sample_payment_unknown = ''PaymentCompletedEvent''
   \<and> pd_BillID sample_payment_unknown \<notin> set (map br_id (member_bills sample_world_billed))
   \<and> (\<exists>w1. processEvent sample_env sample_world_billed
               \<lparr>Data = Doc (marshal_payment sample_payment_unknown)\<rparr> = Returned w1
          \<and> member_bills w1 = member_bills sample_world_billed)"
proof -
  have h1: "Data \<lparr>Data = Doc (marshal_payment sample_payment)\<rparr>
      = Doc (marshal_payment sample_payment)" by simp
  have h2: "pd_EventType sample_payment = ''PaymentCompletedEvent''"
    by (simp add: sample_payment_def)
  have h3: "\<not> io_fails sample_env (Suc (length (calls sample_world_billed)))"
    by (simp add: sample_env_def)
  have k1: "Data \<lparr>Data = Doc (marshal_payment sample_payment_unknown)\<rparr>
      = Doc (marshal_payment sample_payment_unknown)" by simp
  have k2: "pd_EventType sample_payment_unknown = ''PaymentCompletedEvent''"
    by (simp add: sample_payment_unknown_def)
  have k3: "pd_BillID sample_payment_unknown \<notin> set (map br_id (member_bills sample_world_billed))"
    by (simp add: sample_payment_unknown_def sample_world_billed_def sample_world_def)
  have bills: "member_bills sample_world_billed =
      [\<lparr>br_id = ''b1'', br_promise_id = ''p1'', br_user_id = ''u1'', br_amount = 1200,
        br_status = ''unpaid'', br_issued_date = ''2024-01-05'', br_paid_date = None\<rparr>]"
    by (simp add: sample_world_billed_def sample_world_def)
  have paid: "\<exists>w1. processEvent sample_env sample_world_billed
               \<lparr>Data = Doc (marshal_payment sample_payment)\<rparr> = Returned w1
          \<and> member_bills w1 =
              [\<lparr>br_id = ''b1'', br_promise_id = ''p1'', br_user_id = ''u1'', br_amount = 1200,
                br_status = ''paid'', br_issued_date = ''2024-01-05'',
                br_paid_date = Some ''2024-01-20''\<rparr>]
          \<and> (\<exists>w2. processEvent sample_env w1 \<lparr>Data = Doc (marshal_payment sample_payment)\<rparr>
                 = Returned w2 \<and> member_bills w2 = member_bills w1)"
    using C3_payment_marks_bill_paid [OF h1 h2, of sample_env sample_world_billed sample_env] h3
    by (simp add: bills) (simp add: sample_payment_def)
  have unknown: "\<exists>w1. processEvent sample_env sample_world_billed
               \<lparr>Data = Doc (marshal_payment sample_payment_unknown)\<rparr> = Returned w1
          \<and> member_bills w1 = member_bills sample_world_billed"
    using C3_payment_marks_bill_paid [OF k1 k2, of sample_env sample_world_billed sample_env] k3
    by blast
  show ?thesis
    using h1 h2 h3 k2 k3 paid unknown by blast
qed


lemma ws_writes_snoc_db [simp]: "ws_writes (cs @ [DbExec q ok]) = ws_writes cs"
  by (simp add: ws_writes_append)

lemma ws_writes_snoc_put [simp]: "ws_writes (cs @ [PutRecord d ok]) = ws_writes cs"
  by (simp add: ws_writes_append)

lemma ws_writes_snoc_ws [simp]: "ws_writes (cs @ [WsWrite m ok]) = ws_writes cs @ [m]"
  by (simp add: ws_writes_append)







section \<open>Command intake\<close>

text \<open>
  Claim C10. Whenever the handler of \<^verbatim>\<open>POST /purchase\<close> binds the request body to a
  command, the event it hands to \<^verbatim>\<open>EmitEvent\<close> is a \<^verbatim>\<open>PurchaseCompletedEvent\<close> whose order
  identifier is \<open>order-\<close> followed by the command's user identifier, and that event is what
  the one \<^verbatim>\<open>PutRecord\<close> call carries. Two commands with the same user identifier therefore
  give equal order identifiers, whatever their products and amounts and whenever they
  arrive.
\<close>

theorem C10_order_id_from_user_id:
  assumes "unmarshal_command body1 = Inr c1"
    and "unmarshal_command body2 = Inr c2"
  shows "\<exists>s1 e1 v1 s2 e2 v2.
       post_purchase env1 w1 body1 = (s1, Some e1, v1)
     \<and> post_purchase env2 w2 body2 = (s2, Some e2, v2)
     \<and> pc_EventType e1 = ''PurchaseCompletedEvent''
     \<and> pc_OrderID e1 = ''order-'' @ cmd_UserID c1
     \<and> pc_OrderID e2 = ''order-'' @ cmd_UserID c2
     \<and> calls v1 = calls w1 @
          [PutRecord (Doc (marshal_purchase e1)) (\<not> io_fails env1 (length (calls w1)))]
     \<and> (cmd_UserID c1 = cmd_UserID c2 \<longrightarrow> pc_OrderID e1 = pc_OrderID e2)"
  using assms by (simp add: post_purchase_def EmitEvent_def logf_def Let_def)

text \<open>Two different purchases of user \<open>u1\<close> both get the order identifier \<open>order-u1\<close>.\<close>

theorem C10_witness:
  "unmarshal_command (Doc (JObject [(''user_id'', JString ''u1''), (''product_id'', JString ''A''),
       (''product_name'', JString ''tea''), (''amount'', JInt 3500)]))
     = Inr \<lparr>cmd_UserID = ''u1'', cmd_ProductID = ''A'', cmd_ProductName = ''tea'',
            cmd_Amount = 3500\<rparr>
   \<and> unmarshal_command (Doc (JObject [(''user_id'', JString ''u1''), (''product_id'', JString ''B''),
       (''product_name'', JString ''cup''), (''amount'', JInt 900)]))
     = Inr \<lparr>cmd_UserID = ''u1'', cmd_ProductID = ''B'', cmd_ProductName = ''cup'',
            cmd_Amount = 900\<rparr>
   \<and> (\<exists>s1 e1 v1 s2 e2 v2.
       post_purchase sample_env sample_world
         (Doc (JObject [(''user_id'', JString ''u1''), (''product_id'', JString ''A''),
            (''product_name'', JString ''tea''), (''amount'', JInt 3500)])) = (s1, Some e1, v1)
     \<and> post_purchase sample_env sample_world
         (Doc (JObject [(''user_id'', JString ''u1''), (''product_id'', JString ''B''),
            (''product_name'', JString ''cup''), (''amount'', JInt 900)])) = (s2, Some e2, v2)
     \<and> pc_OrderID e1 = ''order-u1'' \<and> pc_OrderID e2 = ''order-u1'')"
proof -
  have h1: "unmarshal_command (Doc (JObject [(''user_id'', JString ''u1''),
       (''product_id'', JString ''A''), (''product_name'', JString ''tea''),
       (''amount'', JInt 3500)]))
     = Inr \<lparr>cmd_UserID = ''u1'', cmd_ProductID = ''A'', cmd_ProductName = ''tea'',
            cmd_Amount = 3500\<rparr>"
    by (simp add: unmarshal_command_def command_field_def fold_tags zero_command_def)
  have h2: "unmarshal_command (Doc (JObject [(''user_id'', JString ''u1''),
       (''product_id'', JString ''B''), (''product_name'', JString ''cup''),
       (''amount'', JInt 900)]))
     = Inr \<lparr>cmd_UserID = ''u1'', cmd_ProductID = ''B'', cmd_ProductName = ''cup'',
            cmd_Amount = 900\<rparr>"
    by (simp add: unmarshal_command_def command_field_def fold_tags zero_command_def)
  show ?thesis
    using C10_order_id_from_user_id [OF h1 h2, of sample_env sample_world sample_env sample_world]
      h1 h2
    by simp blast
qed

section \<open>The stream reader\<close>

text \<open>A run that has ended does not depend on how many more polls are looked at.\<close>

lemma poll_loop_more_polls:
  "poll_loop n env w it = r \<Longrightarrow> (\<forall>v. r \<noteq> Polling v) \<Longrightarrow> poll_loop (n + k) env w it = r"
proof (induction n env w it rule: poll_loop.induct)
  case (1 env w shardIterator)
  then show ?case by auto
next
  case (2 n env w shardIterator)
  then show ?case
    by (auto split: option.splits outcome.splits prod.splits)
qed




text \<open>The whole of \<^verbatim>\<open>main\<close> on a stream that closes at the first poll.\<close>

lemma consumer_main_sample_exits:
  "consumer_main (Suc n) sample_env sample_world
     = Exited (logf (logf sample_world LogListening) LogIteratorNil)"
  by (simp add: consumer_main_def sample_env_def)

section \<open>What holds of the decode policy and of the event log\<close>

text \<open>
  Bytes that are not JSON, and documents that are not objects, are logged and dropped; a
  string discriminator outside the four names is logged to the event log and dropped; and
  the loop goes on after any record whose processing returns.
\<close>

lemma processEvent_not_json:
  "processEvent env w \<lparr>Data = NotJSON raw\<rparr> =
     Returned (logf (logf w (LogReceived (NotJSON raw))) LogGenericUnmarshalFailed)"
  by (simp add: processEvent_def Let_def)

lemma processEvent_not_object:
  "processEvent env w \<lparr>Data = Doc (JArray js)\<rparr> =
     Returned (logf (logf w (LogReceived (Doc (JArray js)))) LogGenericUnmarshalFailed)"
  by (simp add: processEvent_def Let_def)

lemma processEvent_unknown_type:
  assumes "unmarshal_generic (Data rec) = Inr g"
    and "assert_string (g ''event_type'') = Some ty"
    and "ty \<noteq> ''PurchaseCompletedEvent''" and "ty \<noteq> ''PaymentPromiseCreatedEvent''"
    and "ty \<noteq> ''MemberBillCreatedEvent''" and "ty \<noteq> ''PaymentCompletedEvent''"
  shows "processEvent env w rec =
     Returned (saveEventToDB env (logf w (LogReceived (Data rec))) (Data rec) ty)"
  using assms by (simp add: processEvent_typed Let_def)

lemma process_records_after_return:
  "processEvent env w r = Returned w' \<Longrightarrow>
   process_records env w (r # rs) = process_records env w' rs"
  by simp

lemma event_appends_append:
  "event_appends (xs @ ys) = event_appends xs @ event_appends ys"
  by (induction xs rule: event_appends.induct) simp_all

lemma calls_case_purchase:
  "\<exists>rest. calls (world_of (case_PurchaseCompletedEvent env w rec)) = calls w @ rest
     \<and> event_appends rest = []"
  by (simp add: case_PurchaseCompletedEvent_def uuid_New_def EmitEvent_def logf_def Let_def
      split: sum.splits)

lemma calls_case_promise:
  "\<exists>rest. calls (world_of (case_PaymentPromiseCreatedEvent env w rec)) = calls w @ rest
     \<and> event_appends rest = []"
  by (simp add: case_PaymentPromiseCreatedEvent_def savePromiseToDB_def db_Exec_def logf_def
      Let_def split: sum.splits)

lemma calls_case_bill:
  "\<exists>rest. calls (world_of (case_MemberBillCreatedEvent env w rec)) = calls w @ rest
     \<and> event_appends rest = []"
  by (simp add: case_MemberBillCreatedEvent_def saveMemberBillToDB_def db_Exec_def logf_def
      Let_def split: sum.splits)

lemma calls_case_payment:
  "\<exists>rest. calls (world_of (case_PaymentCompletedEvent env w rec)) = calls w @ rest
     \<and> event_appends rest = []"
  by (simp add: case_PaymentCompletedEvent_def updateMemberBillStatus_def db_Exec_def
      ws_WriteMessage_def logf_def Let_def split: sum.splits)

text \<open>
  Whenever the discriminator is a string, the append to the event log is the first call
  of the processing, carries the next UUID, the discriminator and the raw payload, and is
  the only append; its refusal is logged by \<^verbatim>\<open>saveEventToDB\<close> and the switch runs all the
  same.
\<close>

lemma event_log_append_first:
  assumes "unmarshal_generic (Data rec) = Inr g"
    and "assert_string (g ''event_type'') = Some ty"
  shows "\<exists>rest. calls (world_of (processEvent env w rec)) =
       calls w @ DbExec (InsertEvent (uuid_gen env (uuid_ctr w)) ty (Data rec))
                   (\<not> io_fails env (length (calls w))) # rest
     \<and> event_appends rest = []"
proof -
  let ?w1 = "saveEventToDB env (logf w (LogReceived (Data rec))) (Data rec) ty"
  let ?c = "DbExec (InsertEvent (uuid_gen env (uuid_ctr w)) ty (Data rec))
              (\<not> io_fails env (length (calls w)))"
  have c1: "calls ?w1 = calls w @ [?c]"
    by (simp add: saveEventToDB_effect Let_def logf_def)
  have step: "\<exists>rest. calls (world_of out) = calls ?w1 @ rest \<and> event_appends rest = []
      \<Longrightarrow> \<exists>rest. calls (world_of out) = calls w @ ?c # rest \<and> event_appends rest = []"
    for out
    unfolding c1 by simp
  have none: "\<exists>rest. calls (world_of (Returned ?w1)) = calls ?w1 @ rest \<and> event_appends rest = []"
    by simp
  consider (a) "ty = ''PurchaseCompletedEvent''"
    | (b) "ty \<noteq> ''PurchaseCompletedEvent''" "ty = ''PaymentPromiseCreatedEvent''"
    | (c) "ty \<noteq> ''PurchaseCompletedEvent''" "ty \<noteq> ''PaymentPromiseCreatedEvent''"
          "ty = ''MemberBillCreatedEvent''"
    | (d) "ty \<noteq> ''PurchaseCompletedEvent''" "ty \<noteq> ''PaymentPromiseCreatedEvent''"
          "ty \<noteq> ''MemberBillCreatedEvent''" "ty = ''PaymentCompletedEvent''"
    | (e) "ty \<noteq> ''PurchaseCompletedEvent''" "ty \<noteq> ''PaymentPromiseCreatedEvent''"
          "ty \<noteq> ''MemberBillCreatedEvent''" "ty \<noteq> ''PaymentCompletedEvent''"
    by blast
  then show ?thesis
  proof cases
    case a
    have "processEvent env w rec = case_PurchaseCompletedEvent env ?w1 rec"
      unfolding processEvent_typed [OF assms] Let_def using a by simp
    then show ?thesis using step [OF calls_case_purchase [of env ?w1 rec]] by simp
  next
    case b
    have "processEvent env w rec = case_PaymentPromiseCreatedEvent env ?w1 rec"
      unfolding processEvent_typed [OF assms] Let_def using b by simp
    then show ?thesis using step [OF calls_case_promise [of env ?w1 rec]] by simp
  next
    case c
    have "processEvent env w rec = case_MemberBillCreatedEvent env ?w1 rec"
      unfolding processEvent_typed [OF assms] Let_def using c by simp
    then show ?thesis using step [OF calls_case_bill [of env ?w1 rec]] by simp
  next
    case d
    have "processEvent env w rec = case_PaymentCompletedEvent env ?w1 rec"
      unfolding processEvent_typed [OF assms] Let_def using d by simp
    then show ?thesis using step [OF calls_case_payment [of env ?w1 rec]] by simp
  next
    case e
    have "processEvent env w rec = Returned ?w1"
      unfolding processEvent_typed [OF assms] Let_def using e by simp
    then show ?thesis using step [OF none] by simp
  qed
qed

end
